theory Spec2Isabelle
  imports Complex_Main
begin

section \<open>Python values and exceptions\<close>

text \<open>
  Python floats are modelled as reals.  A value returned by the external study is a
  Python bool (\<open>False\<close> is the failure sentinel), an int, a float, a list of floats or a
  one-dimensional NumPy array, which is empty or has a first element and the rest.
\<close>

datatype error = TypeError | ValueError | IndexError | AttributeError | OverflowError | StudyError | SweepFailed

datatype pyval =
  PyBool bool | PyInt int | PyFloat real | PyList "real list" | PyArray real "real list" | PyEmptyArray

datatype 'a res = Raise error | Ok 'a

fun res_bind :: "'a res \<Rightarrow> ('a \<Rightarrow> 'b res) \<Rightarrow> 'b res" where
  "res_bind (Raise e) f = Raise e"
| "res_bind (Ok x) f = f x"

text \<open>\<open>xs[i]\<close> for an index that is not negative.\<close>

definition get :: "'a list \<Rightarrow> nat \<Rightarrow> 'a res" where
  "get xs i = (if i < length xs then Ok (xs ! i) else Raise IndexError)"

text \<open>
  The truth value of a NumPy array of booleans, as \<open>if arr:\<close> takes it: the element
  of a one-element array, \<open>ValueError\<close> for several elements.
\<close>

fun array_truth :: "bool \<Rightarrow> bool list \<Rightarrow> bool res" where
  "array_truth b [] = Ok b"
| "array_truth b (c # cs) = Raise ValueError"

text \<open>\<open>if (res != False)\<close>: Python compares numbers with \<open>False\<close> as with 0, a list
  is never equal to \<open>False\<close>, an array is compared element by element.  The truth
  value of an empty array is \<open>False\<close>, with a deprecation warning (NumPy 2.2 and later
  raise instead).\<close>

fun py_ne_False :: "pyval \<Rightarrow> bool res" where
  "py_ne_False (PyBool b) = Ok b"
| "py_ne_False (PyInt i) = Ok (i \<noteq> 0)"
| "py_ne_False (PyFloat x) = Ok (x \<noteq> 0)"
| "py_ne_False (PyList xs) = Ok True"
| "py_ne_False (PyArray x xs) = array_truth (x \<noteq> 0) (map (\<lambda>y. y \<noteq> 0) xs)"
| "py_ne_False PyEmptyArray = Ok False"

text \<open>\<open>if res == False\<close>, the same comparison negated.\<close>

fun py_eq_False :: "pyval \<Rightarrow> bool res" where
  "py_eq_False (PyBool b) = Ok (\<not> b)"
| "py_eq_False (PyInt i) = Ok (i = 0)"
| "py_eq_False (PyFloat x) = Ok (x = 0)"
| "py_eq_False (PyList xs) = Ok False"
| "py_eq_False (PyArray x xs) = array_truth (x = 0) (map (\<lambda>y. y = 0) xs)"
| "py_eq_False PyEmptyArray = Ok False"

text \<open>\<open>res is not False\<close>: identity with the singleton \<open>False\<close>.\<close>

definition is_not_False :: "pyval \<Rightarrow> bool" where
  "is_not_False v = (v \<noteq> PyBool False)"

section \<open>Sample and DataCollection (utilities/data_collection.py)\<close>

text \<open>
  The result name of a sample is a Python string object, kept as its identity and its
  characters: \<open>is\<close> holds between a name and itself only, \<open>==\<close> compares the
  characters.  Which identity a string object has is decided by the interpreter; a
  name read from a file is another object than the name of the running study.
\<close>

type_synonym pystr = "nat \<times> string"

text \<open>
  \<open>parameters_size\<close> and \<open>result_size\<close> are always the lengths of the two
  sequences, and \<open>sample_num\<close> the length of the list of samples, so they are not
  stored separately.
\<close>

record sample =
  parameters :: "real list"
  simulation_name :: string
  result :: "pyval list"
  result_name :: pystr

text \<open>\<open>Sample.__init__\<close>: a result that is not a Python list is wrapped in one.\<close>

fun result_to_store :: "pyval \<Rightarrow> pyval list" where
  "result_to_store (PyList xs) = map PyFloat xs"
| "result_to_store v = [v]"

definition Sample :: "real list \<Rightarrow> string \<Rightarrow> pyval \<Rightarrow> pystr \<Rightarrow> sample" where
  "Sample ps sname r rname =
     \<lparr>parameters = ps, simulation_name = sname, result = result_to_store r, result_name = rname\<rparr>"

definition add_sample :: "sample list \<Rightarrow> real list \<Rightarrow> string \<Rightarrow> pyval \<Rightarrow> pystr \<Rightarrow> nat \<times> sample list" where
  "add_sample smp ps sname r rname =
     (let smp' = smp @ [Sample ps sname r rname] in (length smp' - 1, smp'))"

text \<open>
  \<open>is_sample\<close>: the first index whose sample has the same number of parameters, equal
  parameters and the result name that \<open>is\<close> the given one, the same object.
\<close>

fun is_sample_from :: "nat \<Rightarrow> sample list \<Rightarrow> real list \<Rightarrow> pystr \<Rightarrow> bool \<times> nat option" where
  "is_sample_from i [] ps rname = (False, None)"
| "is_sample_from i (s # ss) ps rname =
     (if length ps = length (parameters s) \<and> parameters s = ps \<and> result_name s = rname
      then (True, Some i)
      else is_sample_from (Suc i) ss ps rname)"

definition is_sample :: "sample list \<Rightarrow> real list \<Rightarrow> pystr \<Rightarrow> bool \<times> nat option" where
  "is_sample smp ps rname = is_sample_from 0 smp ps rname"

text \<open>
  \<open>xs[k]\<close> for a Python int \<open>k\<close>: a negative index counts from the end.
\<close>

definition py_index :: "'a list \<Rightarrow> int \<Rightarrow> 'a res" where
  "py_index xs k =
     (let n = int (length xs); j = (if k < 0 then n + k else k)
      in if 0 \<le> j \<and> j < n then Ok (xs ! nat j) else Raise IndexError)"

text \<open>
  The arguments of \<open>filter_simulation\<close>.  \<open>result_index\<close> is an int or a list of ints;
  \<open>simulation_name\<close> is \<open>None\<close>, a string (then \<open>in\<close> is the substring test) or a list
  of strings; a bound is \<open>None\<close>, a number, or a non-empty list whose entries are
  numbers or \<open>None\<close>.
\<close>

datatype index_arg = IdxInt int | IdxList "int list"

datatype stage_arg = StageNone | StageStr string | StageList "string list"

datatype bound_arg = BNone | BScalar real | BList "real option" "real option list"

fun is_prefix :: "string \<Rightarrow> string \<Rightarrow> bool" where
  "is_prefix [] ys = True"
| "is_prefix (x # xs) [] = False"
| "is_prefix (x # xs) (y # ys) = (x = y \<and> is_prefix xs ys)"

fun is_substring :: "string \<Rightarrow> string \<Rightarrow> bool" where
  "is_substring xs [] = (xs = [])"
| "is_substring xs (y # ys) = (is_prefix xs (y # ys) \<or> is_substring xs ys)"

text \<open>\<open>(simulation_name is None) or (stage in simulation_name)\<close>.\<close>

fun stage_ok :: "stage_arg \<Rightarrow> string \<Rightarrow> bool" where
  "stage_ok StageNone stage = True"
| "stage_ok (StageStr s) stage = is_substring stage s"
| "stage_ok (StageList l) stage = (stage \<in> set l)"

text \<open>The numbers of \<open>np.array(item)\<close> for one stored result.\<close>

fun item_values :: "pyval \<Rightarrow> real list" where
  "item_values (PyBool b) = [if b then 1 else 0]"
| "item_values (PyInt i) = [real_of_int i]"
| "item_values (PyFloat x) = [x]"
| "item_values (PyList xs) = xs"
| "item_values (PyArray x xs) = x # xs"
| "item_values PyEmptyArray = []"

text \<open>
  \<open>lb == None or (res > lb).all()\<close> with \<open>lb = np.array(lower_bound)\<close>, and the same
  for the upper bound with \<open><\<close>; \<open>cmp v b\<close> is the comparison of a value with the
  bound.  The comparison of an array bound with \<open>None\<close> is element by element.
\<close>

fun bound_holds :: "(real \<Rightarrow> real \<Rightarrow> bool) \<Rightarrow> bound_arg \<Rightarrow> pyval \<Rightarrow> bool res" where
  "bound_holds cmp BNone item = Ok True"
| "bound_holds cmp (BScalar b) item = Ok (list_all (\<lambda>v. cmp v b) (item_values item))"
| "bound_holds cmp (BList e es) item =
     res_bind (array_truth (e = None) (map (\<lambda>y. y = None) es)) (\<lambda>is_none.
       if is_none then Ok True
       else (case e of None \<Rightarrow> Ok True
                     | Some b \<Rightarrow> Ok (list_all (\<lambda>v. cmp v b) (item_values item))))"

text \<open>
  Lines 132 to 155 for one sample that passed the tests on the names: whether it is
  included.  Line 132 indexes the stored result, a Python list, with \<open>result_index\<close>
  before looking at its type; for a list of indices that is a \<open>TypeError\<close>, so the
  branch of lines 141 to 155 is never reached.
\<close>

definition include_sample :: "sample \<Rightarrow> index_arg \<Rightarrow> bound_arg \<Rightarrow> bound_arg \<Rightarrow> bool res" where
  "include_sample s result_index lb ub =
     (case result_index of
        IdxList ks \<Rightarrow> Raise TypeError
      | IdxInt k \<Rightarrow>
          res_bind (py_index (result s) k) (\<lambda>item.
          res_bind (bound_holds (\<lambda>v b. v > b) lb item) (\<lambda>lower_ok.
            if lower_ok then bound_holds (\<lambda>v b. v < b) ub item else Ok False)))"

fun filter_from ::
  "nat \<Rightarrow> sample list \<Rightarrow> string \<Rightarrow> index_arg \<Rightarrow> stage_arg \<Rightarrow> bound_arg \<Rightarrow> bound_arg
     \<Rightarrow> (real list list \<times> pyval list list \<times> nat list) res" where
  "filter_from i [] rname result_index stage lb ub = Ok ([], [], [])"
| "filter_from i (s # ss) rname result_index stage lb ub =
     (if snd (result_name s) = rname \<and> stage_ok stage (simulation_name s) then
        res_bind (include_sample s result_index lb ub) (\<lambda>inc.
        res_bind (filter_from (Suc i) ss rname result_index stage lb ub)
          (\<lambda>(filtered_parameters, filtered_result, filtered_idx).
             if inc then Ok (parameters s # filtered_parameters, result s # filtered_result,
                             i # filtered_idx)
             else Ok (filtered_parameters, filtered_result, filtered_idx)))
      else filter_from (Suc i) ss rname result_index stage lb ub)"

definition filter_simulation ::
  "sample list \<Rightarrow> string \<Rightarrow> index_arg \<Rightarrow> stage_arg \<Rightarrow> bound_arg \<Rightarrow> bound_arg
     \<Rightarrow> (real list list \<times> pyval list list \<times> nat list) res" where
  "filter_simulation smp rname result_index stage lb ub =
     filter_from 0 smp rname result_index stage lb ub"

text \<open>
  The csv file.  The csv module writes the fields of a row and reads them back, and a
  float is written as its shortest decimal text, which \<open>np.float64\<close> reads back as the
  same float; so a row is kept as its two names and the list of its other fields, a
  field being the text of a number or a text that is not a number (\<open>True\<close>, or the text
  of an array).
\<close>

datatype cell = Num real | NotNum

record csv_row =
  stage_field :: string
  name_field :: string
  value_fields :: "cell list"

fun cell_of :: "pyval \<Rightarrow> cell list" where
  "cell_of (PyInt i) = [Num (real_of_int i)]"
| "cell_of (PyFloat x) = [Num x]"
| "cell_of (PyBool b) = [NotNum]"
| "cell_of (PyList xs) = [NotNum]"
| "cell_of (PyArray x xs) = [NotNum]"
| "cell_of PyEmptyArray = [NotNum]"

text \<open>\<open>export_to_csv\<close>: one row per sample, names, parameters, results.\<close>

definition export_row :: "sample \<Rightarrow> csv_row" where
  "export_row s =
     \<lparr>stage_field = simulation_name s, name_field = snd (result_name s),
      value_fields = map Num (parameters s) @ concat (map cell_of (result s))\<rparr>"

definition export_to_csv :: "sample list \<Rightarrow> csv_row list" where
  "export_to_csv smp = map export_row smp"

text \<open>
  \<open>str(row[0:1])[2:-2]\<close> is the \<open>repr\<close> of the name without its quotes.  \<open>repr\<close> quotes
  with \<open>'\<close>, or with \<open>"\<close> when the string has a \<open>'\<close> and no \<open>"\<close>, and escapes the
  backslash, the quote in use and the characters that are not printable.  Characters
  are bytes here; those above 127 are left as they are.
\<close>

definition hex_digit :: "nat \<Rightarrow> char" where
  "hex_digit n = ''0123456789abcdef'' ! (n mod 16)"

definition repr_quote :: "string \<Rightarrow> char" where
  "repr_quote s = (if CHR 0x27 \<in> set s \<and> CHR 0x22 \<notin> set s then CHR 0x22 else CHR 0x27)"

definition repr_char :: "char \<Rightarrow> char \<Rightarrow> string" where
  "repr_char q c =
     (if c = CHR 0x5C then [CHR 0x5C, CHR 0x5C]
      else if c = q then [CHR 0x5C, c]
      else if c = CHR 0x0A then [CHR 0x5C, CHR ''n'']
      else if c = CHR 0x0D then [CHR 0x5C, CHR ''r'']
      else if c = CHR 0x09 then [CHR 0x5C, CHR ''t'']
      else if (of_char c :: nat) < 32 \<or> (of_char c :: nat) = 127
           then [CHR 0x5C, CHR ''x'', hex_digit (of_char c div 16), hex_digit (of_char c)]
      else [c])"

definition repr_body :: "string \<Rightarrow> string" where
  "repr_body s = concat (map (repr_char (repr_quote s)) s)"

text \<open>\<open>np.float64\<close> of a list of fields: an array, or \<open>ValueError\<close> for a text that is not a number.\<close>

fun float64 :: "cell list \<Rightarrow> real list res" where
  "float64 [] = Ok []"
| "float64 (Num x # cs) = res_bind (float64 cs) (\<lambda>xs. Ok (x # xs))"
| "float64 (NotNum # cs) = Raise ValueError"

definition array_val :: "real list \<Rightarrow> pyval" where
  "array_val xs = (case xs of [] \<Rightarrow> PyEmptyArray | y # ys \<Rightarrow> PyArray y ys)"

text \<open>
  The file is written with \<open>newline=''\<close> and read without it, in text mode with
  universal newlines: inside a name, a carriage return with its line feed, or alone,
  is read as one line feed.
\<close>

fun universal_newlines :: "string \<Rightarrow> string" where
  "universal_newlines [] = []"
| "universal_newlines [c] = (if c = CHR 0x0D then [CHR 0x0A] else [c])"
| "universal_newlines (c # d # cs) =
     (if c = CHR 0x0D \<and> d = CHR 0x0A then CHR 0x0A # universal_newlines cs
      else if c = CHR 0x0D then CHR 0x0A # universal_newlines (d # cs)
      else c # universal_newlines (d # cs))"

text \<open>
  \<open>load_from_csv\<close>: every row is added as a sample; the result handed to \<open>add_sample\<close>
  is the array of all the fields after the parameters.  The result name is a new
  string object; \<open>new_id i\<close> is the identity of the one made for the sample of index
  \<open>i\<close>.  An exception leaves the rows before it in the database.
\<close>

fun load_from_csv ::
  "sample list \<Rightarrow> csv_row list \<Rightarrow> nat \<Rightarrow> (nat \<Rightarrow> nat) \<Rightarrow> unit res \<times> sample list" where
  "load_from_csv smp [] parameters_size new_id = (Ok (), smp)"
| "load_from_csv smp (row # rows) parameters_size new_id =
     (let sname = repr_body (universal_newlines (stage_field row));
          rname = (new_id (length smp), repr_body (universal_newlines (name_field row)))
      in case float64 (take parameters_size (value_fields row)) of
           Raise e \<Rightarrow> (Raise e, smp)
         | Ok params \<Rightarrow>
             (case float64 (drop parameters_size (value_fields row)) of
                Raise e \<Rightarrow> (Raise e, smp)
              | Ok r \<Rightarrow>
                  load_from_csv (snd (add_sample smp params sname (array_val r) rname))
                    rows parameters_size new_id))"

section \<open>DimensionalityReductionPCA (dimensionality/pca.py)\<close>

text \<open>
  The scaler and the PCA are scikit-learn objects; their composed inverse transform of
  one reduced point is the parameter \<open>invert_fn\<close>.  Before training the attributes do
  not exist and reading them raises \<open>AttributeError\<close>.
\<close>

record dr_model =
  n_components :: nat
  trained :: bool
  invert_fn :: "real list \<Rightarrow> real list"
  projected_training_data :: "real list list"

definition invert_model :: "dr_model \<Rightarrow> real list \<Rightarrow> real list res" where
  "invert_model m x = (if trained m then Ok (invert_fn m x) else Raise AttributeError)"

text \<open>The inverse transform of a list of points; the matrix product fails on an empty list.\<close>

definition invert_rows :: "dr_model \<Rightarrow> real list list \<Rightarrow> real list list res" where
  "invert_rows m rows =
     (if \<not> trained m then Raise AttributeError
      else if rows = [] then Raise ValueError
      else Ok (map (invert_fn m) rows))"

text \<open>
  An argument of \<open>subspace_mesh\<close>: \<open>None\<close>, a scalar, a Python list or a non-empty
  one-dimensional NumPy array.
\<close>

datatype 'a pyarg = ArgNone | ArgScalar 'a | ArgList "'a list" | ArgArray 'a "'a list"

text \<open>\<open>if arg == None\<close>: an array is compared element by element.\<close>

fun eq_None :: "'a pyarg \<Rightarrow> bool res" where
  "eq_None ArgNone = Ok True"
| "eq_None (ArgScalar x) = Ok False"
| "eq_None (ArgList xs) = Ok False"
| "eq_None (ArgArray x xs) = array_truth False (map (\<lambda>y. False) xs)"

text \<open>\<open>np.ones(n) * xs\<close> for a Python list \<open>xs\<close>, by NumPy's broadcasting.\<close>

definition broadcast :: "nat \<Rightarrow> 'a list \<Rightarrow> 'a list res" where
  "broadcast n xs =
     (if length xs = n then Ok xs
      else if length xs = 1 then Ok (replicate n (hd xs))
      else if n = 1 then Ok xs
      else Raise ValueError)"

text \<open>The vector built from \<open>distance\<close> or \<open>n_points\<close> once it is known not to be \<open>None\<close>.\<close>

fun arg_vector :: "nat \<Rightarrow> 'a pyarg \<Rightarrow> 'a list res" where
  "arg_vector n (ArgArray x xs) = (if length (x # xs) = 1 then Ok (replicate n x) else Ok (x # xs))"
| "arg_vector n (ArgScalar x) = Ok (replicate n x)"
| "arg_vector n (ArgList xs) = broadcast n xs"
| "arg_vector n ArgNone = Raise TypeError"

text \<open>
  Lines 155 to 188: the distances, the numbers of points and \<open>flag_find_n_points\<close>.
\<close>

definition mesh_vectors :: "nat \<Rightarrow> real pyarg \<Rightarrow> int pyarg \<Rightarrow> (real list \<times> int list \<times> bool) res" where
  "mesh_vectors n distance n_points =
     res_bind (eq_None n_points) (\<lambda>np_none.
       if np_none then
         res_bind (eq_None distance) (\<lambda>d_none.
           if d_none then Raise ValueError
           else res_bind (arg_vector n distance) (\<lambda>dist_vector.
                  Ok (dist_vector, replicate n 0, True)))
       else res_bind (arg_vector n n_points) (\<lambda>n_points_vector.
              Ok (replicate n 0, n_points_vector, False)))"

definition mean :: "real list \<Rightarrow> real" where
  "mean xs = sum_list xs / real (length xs)"

definition std :: "real list \<Rightarrow> real" where
  "std xs = sqrt (mean (map (\<lambda>x. (x - mean xs)\<^sup>2) xs))"

text \<open>
  Lines 191 to 200: the boundaries, given as a pair of sequences or taken as five
  standard deviations around the mean of each column of the projected training data.
\<close>

definition mesh_bounds :: "dr_model \<Rightarrow> (real list \<times> real list) option \<Rightarrow> (real list \<times> real list) res" where
  "mesh_bounds m boundaries =
     (case boundaries of
        Some (lower_bound, upper_bound) \<Rightarrow> Ok (lower_bound, upper_bound)
      | None \<Rightarrow>
          if \<not> trained m then Raise AttributeError
          else (let cols = transpose (projected_training_data m)
                in Ok (map (\<lambda>c. mean c - 5 * std c) cols, map (\<lambda>c. mean c + 5 * std c) cols)))"

text \<open>\<open>np.zeros(n)\<close> with entry \<open>i\<close> set.\<close>

definition axis_point :: "nat \<Rightarrow> nat \<Rightarrow> real \<Rightarrow> real list" where
  "axis_point n i v = (replicate n 0)[i := v]"

definition manhattan :: "real list \<Rightarrow> real list \<Rightarrow> real" where
  "manhattan a b = sum_list (map2 (\<lambda>x y. \<bar>x - y\<bar>) a b)"

text \<open>
  \<open>int(np.ceil(ab_dist / d) + 1)\<close>: NumPy divides by zero without raising, giving
  \<open>nan\<close> or \<open>inf\<close>, on which \<open>int\<close> raises.
\<close>

definition ceil_points :: "real \<Rightarrow> real \<Rightarrow> int res" where
  "ceil_points ab_dist d =
     (if d = 0 then (if ab_dist = 0 then Raise ValueError else Raise OverflowError)
      else Ok (\<lceil>ab_dist / d\<rceil> + 1))"

definition linspace :: "real \<Rightarrow> real \<Rightarrow> int \<Rightarrow> real list res" where
  "linspace lo hi num =
     (if num < 0 then Raise ValueError
      else if num = 1 then Ok [lo]
      else Ok (map (\<lambda>k. lo + real k * ((hi - lo) / real_of_int (num - 1))) [0..<nat num]))"

text \<open>
  One pass of the loop of lines 204 to 225 for axis \<open>i\<close>: the number of points, the
  distance, the samples and the normalised samples of the axis.  With one point the
  source's distance is \<open>inf\<close> or \<open>nan\<close> (a division by zero that NumPy does not raise
  on); it is not read again before \<open>samp[1]\<close> raises.
\<close>

definition mesh_axis ::
  "dr_model \<Rightarrow> bool \<Rightarrow> real list \<Rightarrow> real list \<Rightarrow> real list \<Rightarrow> int list \<Rightarrow> nat
     \<Rightarrow> (int \<times> real \<times> real list \<times> real list) res" where
  "mesh_axis m flag_find_n_points lower_bound upper_bound dist_vector n_points_vector i =
     res_bind (get lower_bound i) (\<lambda>lo.
     res_bind (invert_model m (axis_point (n_components m) i lo)) (\<lambda>point_a.
     res_bind (get upper_bound i) (\<lambda>hi.
     res_bind (invert_model m (axis_point (n_components m) i hi)) (\<lambda>point_b.
     let ab_dist = manhattan point_a point_b in
     res_bind (if flag_find_n_points
               then res_bind (get dist_vector i) (\<lambda>d.
                    res_bind (ceil_points ab_dist d) (\<lambda>num. Ok (num, d)))
               else res_bind (get n_points_vector i) (\<lambda>num.
                    Ok (num, ab_dist / real_of_int (num - 1)))) (\<lambda>(num, d).
     res_bind (linspace lo hi num) (\<lambda>samp.
       if length samp > 0 then
         res_bind (get samp 1) (\<lambda>s1.
         res_bind (get samp 0) (\<lambda>s0.
           Ok (num, d, samp, map (\<lambda>s. s / (s1 - s0) * d) samp)))
       else Ok (num, d, samp, samp)))))))"

text \<open>The loop over the axes, stopping at the first exception.\<close>

fun mesh_axes ::
  "dr_model \<Rightarrow> bool \<Rightarrow> real list \<Rightarrow> real list \<Rightarrow> real list \<Rightarrow> int list \<Rightarrow> nat list
     \<Rightarrow> (real list list \<times> real list list) res" where
  "mesh_axes m flag lb ub dv nv [] = Ok ([], [])"
| "mesh_axes m flag lb ub dv nv (i # is) =
     res_bind (mesh_axis m flag lb ub dv nv i) (\<lambda>(num, d, samp, normalized).
     res_bind (mesh_axes m flag lb ub dv nv is) (\<lambda>(mapping_lists, mapping_lists_normalized).
       Ok (samp # mapping_lists, normalized # mapping_lists_normalized)))"

text \<open>
  \<open>subspace_mesh\<close>: the grid in the original space, the grid in the reduced space and
  the normalised grid; \<open>product_lists\<close> is \<open>itertools.product\<close>, first axis slowest.
\<close>

definition subspace_mesh ::
  "dr_model \<Rightarrow> real pyarg \<Rightarrow> int pyarg \<Rightarrow> (real list \<times> real list) option
     \<Rightarrow> (real list list \<times> real list list \<times> real list list) res" where
  "subspace_mesh m distance n_points boundaries =
     res_bind (mesh_vectors (n_components m) distance n_points) (\<lambda>(dist_vector, n_points_vector, flag).
     res_bind (mesh_bounds m boundaries) (\<lambda>(lower_bound, upper_bound).
     res_bind (mesh_axes m flag lower_bound upper_bound dist_vector n_points_vector [0..<n_components m])
       (\<lambda>(mapping_lists, mapping_lists_normalized).
     let mapping_projected_grid = product_lists mapping_lists;
         mapping_normalized_projected_grid = product_lists mapping_lists_normalized
     in res_bind (invert_rows m mapping_projected_grid) (\<lambda>mapping_grid.
          Ok (mapping_grid, mapping_projected_grid, mapping_normalized_projected_grid)))))"

section \<open>Map (utilities/map.py)\<close>

text \<open>
  A map keeps a reference to the model; the model is a value here, the one at the time
  of the sweep.  An index returned by \<open>run_study\<close> may be \<open>None\<close>.
\<close>

record map_rec =
  model :: dr_model
  training_data_idx :: "nat list"
  projected_grid :: "real list list"
  normalized_projected_grid :: "real list list"
  sim_idx :: "nat option list"

definition Map :: "dr_model \<Rightarrow> nat list \<Rightarrow> real list list \<Rightarrow> real list list \<Rightarrow> nat option list \<Rightarrow> map_rec" where
  "Map m tidx pg npg sidx =
     \<lparr>model = m, training_data_idx = tidx, projected_grid = pg,
      normalized_projected_grid = npg, sim_idx = sidx\<rparr>"

section \<open>The study and the state of SpaceMapping (mapping.py)\<close>

text \<open>
  The study is external.  One call of \<open>study.run(param)\<close> either raises or returns a
  result and the parameters it used; what it does may depend on the calls made before,
  which the state records in \<open>calls\<close>.
\<close>

datatype outcome = Returns pyval "real list" | Raises

type_synonym study = "real list option list \<Rightarrow> real list option \<Rightarrow> outcome"

record state =
  autosave :: bool
  fom_name :: pystr
  data :: "sample list"
  dr :: dr_model
  smaps :: "map_rec list"
  dr_training_index :: "nat list"
  sampler_iteration :: nat
  sampler_results_num :: nat
  calls :: "real list option list"
  saves :: nat

text \<open>\<open>save_data(override = True)\<close> writes the project file; the state counts the writes.\<close>

definition save_data :: "state \<Rightarrow> state" where
  "save_data st = st\<lparr>saves := saves st + 1\<rparr>"

text \<open>What \<open>run_study\<close> returns as \<open>res\<close>: the study's value, or the stored result.\<close>

datatype study_res = Evaluated pyval | Stored "pyval list"

definition run_study ::
  "study \<Rightarrow> state \<Rightarrow> real list option \<Rightarrow> string \<Rightarrow> bool \<Rightarrow> (study_res \<times> nat option) res \<times> state" where
  "run_study ev st param name force_run =
     (let (already_simulated, sample_idx) =
            (case param of None \<Rightarrow> (False, Some 0)
                         | Some p \<Rightarrow> is_sample (data st) p (fom_name st))
      in if \<not> already_simulated \<or> force_run then
           (case ev (calls st) param of
              Raises \<Rightarrow> (Raise StudyError, st\<lparr>calls := calls st @ [param]\<rparr>)
            | Returns r used_param \<Rightarrow>
                (let st1 = st\<lparr>calls := calls st @ [param]\<rparr> in
                 case py_ne_False r of
                   Raise e \<Rightarrow> (Raise e, st1)
                 | Ok ok \<Rightarrow>
                     (let (idx, st2) =
                            (if ok then
                               (let (i, smp) = add_sample (data st1) used_param name r (fom_name st1)
                                in (Some i, st1\<lparr>data := smp\<rparr>))
                             else (sample_idx, st1));
                          st3 = (if autosave st2 \<and> is_not_False r then save_data st2 else st2)
                      in (Ok (Evaluated r, idx), st3))))
         else
           (case sample_idx of
              None \<Rightarrow> (Raise TypeError, st)
            | Some i \<Rightarrow>
                (let r = result (data st ! i);
                     st3 = (if autosave st then save_data st else st)
                 in (Ok (Stored r, Some i), st3))))"

text \<open>
  The getter of \<open>maps\<close>, which rebuilds every map from the database on each read.
\<close>

record map_view =
  v_model :: dr_model
  v_training_parameters_idx :: "nat list"
  v_training_parameters :: "real list list"
  v_projected_training_parameters :: "real list list"
  v_grid :: "real list list"
  v_projected_grid :: "real list list"
  v_normalized_projected_grid :: "real list list"
  v_result :: "pyval list list"

text \<open>\<open>[f(self.data.sample[i]) for i in idx]\<close>; an index \<open>None\<close> is a \<open>TypeError\<close>.\<close>

fun samples_at :: "sample list \<Rightarrow> nat option list \<Rightarrow> sample list res" where
  "samples_at smp [] = Ok []"
| "samples_at smp (None # is) = Raise TypeError"
| "samples_at smp (Some i # is) =
     res_bind (get smp i) (\<lambda>s.
     res_bind (samples_at smp is) (\<lambda>ss. Ok (s # ss)))"

definition view_of :: "sample list \<Rightarrow> map_rec \<Rightarrow> map_view res" where
  "view_of smp cur_map =
     res_bind (samples_at smp (map Some (training_data_idx cur_map))) (\<lambda>training.
     if \<not> trained (model cur_map) then Raise AttributeError
     else res_bind (samples_at smp (sim_idx cur_map)) (\<lambda>swept.
       Ok \<lparr>v_model = model cur_map,
           v_training_parameters_idx = training_data_idx cur_map,
           v_training_parameters = map parameters training,
           v_projected_training_parameters = projected_training_data (model cur_map),
           v_grid = map parameters swept,
           v_projected_grid = projected_grid cur_map,
           v_normalized_projected_grid = normalized_projected_grid cur_map,
           v_result = map result swept\<rparr>))"

fun views :: "sample list \<Rightarrow> map_rec list \<Rightarrow> map_view list res" where
  "views smp [] = Ok []"
| "views smp (m # ms) =
     res_bind (view_of smp m) (\<lambda>v.
     res_bind (views smp ms) (\<lambda>vs. Ok (v # vs)))"

definition maps_getter :: "state \<Rightarrow> map_view list res" where
  "maps_getter st = views (data st) (smaps st)"

text \<open>\<open>if res == False\<close> on what \<open>run_study\<close> returned; a stored result is a list.\<close>

fun res_eq_False :: "study_res \<Rightarrow> bool res" where
  "res_eq_False (Evaluated v) = py_eq_False v"
| "res_eq_False (Stored l) = Ok False"

text \<open>
  The loop of \<open>subspace_sweep\<close> over the grid, with \<open>mapping_idx\<close> as accumulator.  An
  exception leaves the loop with the state reached so far.
\<close>

fun sweep_loop :: "study \<Rightarrow> state \<Rightarrow> real list list \<Rightarrow> nat option list \<Rightarrow> nat option list res \<times> state" where
  "sweep_loop ev st [] mapping_idx = (Ok mapping_idx, st)"
| "sweep_loop ev st (param # grid) mapping_idx =
     (case run_study ev st (Some param) ''sweeping'' False of
        (Raise e, st') \<Rightarrow> (Raise e, st')
      | (Ok (r, idx), st') \<Rightarrow>
          (case res_eq_False r of
             Raise e \<Rightarrow> (Raise e, st')
           | Ok failed \<Rightarrow>
               if failed then (Raise SweepFailed, st')
               else sweep_loop ev st' grid (mapping_idx @ [idx])))"

text \<open>
  \<open>subspace_sweep\<close>.  \<open>response\<close> is what the user types at the prompt.  The mesh is
  computed outside the \<open>try\<close> block, so its exceptions leave the function; an exception
  inside the block is printed and the function ends without a \<open>return\<close>, that is with
  \<open>None\<close>.
\<close>

definition subspace_sweep ::
  "study \<Rightarrow> state \<Rightarrow> real pyarg \<Rightarrow> int pyarg \<Rightarrow> (real list \<times> real list) option
     \<Rightarrow> (real list list \<times> real list list \<times> real list list) option \<Rightarrow> bool \<Rightarrow> string
     \<Rightarrow> nat option res \<times> state" where
  "subspace_sweep ev st distance n_points boundaries grid_arg go response =
     (case (case grid_arg of None \<Rightarrow> subspace_mesh (dr st) distance n_points boundaries
                           | Some g \<Rightarrow> Ok g) of
        Raise e \<Rightarrow> (Raise e, st)
      | Ok (grid, proj_grid, norm_proj_grid) \<Rightarrow>
          if \<not> go \<and> response \<noteq> ''y'' then (Ok None, st)
          else
            (case sweep_loop ev st grid [] of
               (Raise e, st') \<Rightarrow> (Ok None, st')
             | (Ok mapping_idx, st') \<Rightarrow>
                 (let map_obj = Map (dr st') (dr_training_index st') proj_grid norm_proj_grid
                                    mapping_idx;
                      st2 = st'\<lparr>smaps := smaps st' @ [map_obj]\<rparr>
                  in if autosave st2 then
                       (let st3 = save_data st2
                        in case maps_getter st3 of
                             Raise e \<Rightarrow> (Ok None, st3)
                           | Ok ms \<Rightarrow> (Ok (Some (length ms - 1)), st3))
                     else (Ok None, st2))))"

section \<open>The sampling loop of SpaceMapping (mapping.py, run_sampling)\<close>

text \<open>
  The sampler object is external to this loop: the \<open>k\<close>-th call of \<open>self.sampler.run()\<close>
  either raises or returns the results, the parameters used, the flag of a good result
  and the error flag.
\<close>

datatype sampler_outcome = SReturns "pyval list" "real list list" bool bool | SRaises error

text \<open>
  Lines 207 to 211: one sample per result; \<open>res != False\<close> holds for a Python list.
  When \<open>used_param[i]\<close> raises, the samples added before it stay.
\<close>

fun store_results ::
  "nat \<Rightarrow> pyval list \<Rightarrow> real list list \<Rightarrow> pystr \<Rightarrow> sample list \<Rightarrow> unit res \<times> sample list" where
  "store_results i [] used_param fom smp = (Ok (), smp)"
| "store_results i (r # rs) used_param fom smp =
     (case get used_param i of
        Raise e \<Rightarrow> (Raise e, smp)
      | Ok p \<Rightarrow> store_results (Suc i) rs used_param fom (snd (add_sample smp p ''sampling'' r fom)))"

text \<open>\<open>self._service.sampler_iteration < max_iter\<close>, where \<open>None\<close> stands for \<open>np.Inf\<close>.\<close>

definition below_max_iter :: "nat \<Rightarrow> nat option \<Rightarrow> bool" where
  "below_max_iter n max_iter = (case max_iter of None \<Rightarrow> True | Some m \<Rightarrow> n < m)"

text \<open>
  The \<open>while\<close> loop of lines 187 to 219.  \<open>k\<close> counts the calls of the sampler.  The
  loop need not end, so it runs on fuel and \<open>None\<close> means that the fuel did not
  suffice.  On an error the source executes \<open>error_num =+ 1\<close>, the assignment of
  \<open>+1\<close>.  The result is the state and the number of calls made.
\<close>

fun run_sampling_loop ::
  "nat \<Rightarrow> (nat \<Rightarrow> sampler_outcome) \<Rightarrow> nat \<Rightarrow> nat option \<Rightarrow> nat \<Rightarrow> nat \<Rightarrow> state
     \<Rightarrow> (unit res \<times> state \<times> nat) option" where
  "run_sampling_loop 0 sampler k max_iter max_results error_num st = None"
| "run_sampling_loop (Suc fuel) sampler k max_iter max_results error_num st =
     (if below_max_iter (sampler_iteration st) max_iter
         \<and> sampler_results_num st < max_results \<and> error_num < 6 then
        (case sampler k of
           SRaises e \<Rightarrow> Some (Raise e, st, Suc k)
         | SReturns res used_param good_result error_flag \<Rightarrow>
             if error_flag then
               (let error_num' = 1;
                    st' = (if autosave st then save_data st else st)
                in run_sampling_loop fuel sampler (Suc k) max_iter max_results error_num' st')
             else
               (let error_num' = 0;
                    st1 = st\<lparr>sampler_iteration := sampler_iteration st + 1\<rparr>
                in case store_results 0 res used_param (fom_name st1) (data st1) of
                     (Raise e, smp) \<Rightarrow> Some (Raise e, st1\<lparr>data := smp\<rparr>, Suc k)
                   | (Ok u, smp) \<Rightarrow>
                       (let st2 = st1\<lparr>data := smp\<rparr>;
                            st3 = (if good_result
                                   then st2\<lparr>sampler_results_num := sampler_results_num st2 + 1\<rparr>
                                   else st2);
                            st4 = (if autosave st3 then save_data st3 else st3)
                        in run_sampling_loop fuel sampler (Suc k) max_iter max_results error_num' st4)))
      else Some (Ok (), st, k))"

text \<open>
  \<open>run_sampling\<close>: whether \<open>max_results\<close> good results were reached, the state and the
  number of calls of the sampler; \<open>None\<close> when the loop is still running after \<open>fuel\<close>
  passes.
\<close>

definition run_sampling ::
  "nat \<Rightarrow> (nat \<Rightarrow> sampler_outcome) \<Rightarrow> state \<Rightarrow> nat \<Rightarrow> bool \<Rightarrow> nat option
     \<Rightarrow> (bool res \<times> state \<times> nat) option" where
  "run_sampling fuel sampler st max_results reset max_iter =
     (let st0 = (if reset then st\<lparr>sampler_iteration := 0, sampler_results_num := 0\<rparr> else st)
      in case run_sampling_loop fuel sampler 0 max_iter max_results 0 st0 of
           None \<Rightarrow> None
         | Some (Raise e, st', k) \<Rightarrow> Some (Raise e, st', k)
         | Some (Ok u, st', k) \<Rightarrow>
             Some (Ok (\<not> sampler_results_num st' < max_results), st', k))"

section \<open>RandomLumopt (samplers/random_lumopt.py)\<close>

text \<open>
  The sampler works on the study, on lumopt's optimiser and on a random generator, all
  external.  In pass \<open>k\<close> of the loop of \<open>run\<close>: \<open>x_run k p\<close> is \<open>self._study.run(param=p)\<close>,
  \<open>x_update_geometry k p\<close> is \<open>self._study.update_geometry(param=p)\<close>,
  \<open>x_inverse_design k\<close> is the construction and the run of \<open>LumericalInverseDesign\<close>, and
  \<open>x_draws k\<close> are the values that \<open>self._global_sample_function()\<close> returns, in order.
  Each call raises (\<open>Fails\<close>) or returns (\<open>Gives\<close>).  The two constraints are predicates on
  a result.
\<close>

datatype 'a ext = Fails | Gives 'a

record externals =
  x_run :: "nat \<Rightarrow> real list option \<Rightarrow> (pyval \<times> real list) ext"
  x_update_geometry :: "nat \<Rightarrow> real list option \<Rightarrow> bool ext"
  x_inverse_design :: "nat \<Rightarrow> (pyval \<times> real list) ext"
  x_draws :: "nat \<Rightarrow> real list ext list"

record lumopt =
  global_result_constraint :: "(pyval \<Rightarrow> bool) option"
  local_result_constraint :: "(pyval \<Rightarrow> bool) option"
  global_parameters_bounds :: "(real \<times> real) list option"
  iteration :: nat
  results_num :: nat
  sampling_param :: "real list list"
  sampling_res :: "pyval list"

text \<open>
  The outcome of the \<open>try\<close> block of one pass: completed, left by an exception, or
  stuck in the rejection loop.  What was recorded or assigned before an exception stays.
\<close>

datatype pass_outcome = Completed | Excepted | Stuck

text \<open>
  Lines 190 to 198: draw until the parameters are strictly inside the bounds, or take
  the first draw when there are no bounds; every draw is assigned to \<open>new_param\<close>.  The
  draws of a pass are a finite list; a rejection loop that uses them all up stands for
  one that does not end.  A draw with another length than the bounds cannot be
  compared and raises.
\<close>

fun resample ::
  "(real \<times> real) list option \<Rightarrow> real list ext list \<Rightarrow> real list option
     \<Rightarrow> pass_outcome \<times> real list option" where
  "resample bounds [] new_param = (Stuck, new_param)"
| "resample bounds (Fails # ds) new_param = (Excepted, new_param)"
| "resample bounds (Gives p # ds) new_param =
     (case bounds of
        None \<Rightarrow> (Completed, Some p)
      | Some bs \<Rightarrow>
          if length p \<noteq> length bs then (Excepted, Some p)
          else if list_all2 (\<lambda>v b. fst b < v) p bs \<and> list_all2 (\<lambda>v b. v < snd b) p bs
               then (Completed, Some p)
          else resample bounds ds (Some p))"

text \<open>Lines 159 to 187: the local optimisation; \<open>False\<close> when it raised.\<close>

definition inverse_design_step :: "externals \<Rightarrow> nat \<Rightarrow> lumopt \<Rightarrow> bool \<times> lumopt" where
  "inverse_design_step x k s =
     (case x_inverse_design x k of
        Fails \<Rightarrow> (False, s)
      | Gives (r, p) \<Rightarrow>
          (let s1 = s\<lparr>sampling_param := sampling_param s @ [p],
                      sampling_res := sampling_res s @ [r]\<rparr>
           in (True, case local_result_constraint s1 of
                       None \<Rightarrow> s1\<lparr>results_num := results_num s1 + 1\<rparr>
                     | Some c \<Rightarrow> if c r then s1\<lparr>results_num := results_num s1 + 1\<rparr> else s1)))"

text \<open>Lines 190 to 203: the new parameters, then \<open>self._iteration += 1\<close>.\<close>

definition resample_step ::
  "externals \<Rightarrow> nat \<Rightarrow> real list option \<Rightarrow> lumopt \<Rightarrow> pass_outcome \<times> real list option \<times> lumopt" where
  "resample_step x k new_param s =
     (case resample (global_parameters_bounds s) (x_draws x k) new_param of
        (Completed, np) \<Rightarrow> (Completed, np, s\<lparr>iteration := iteration s + 1\<rparr>)
      | (outcome, np) \<Rightarrow> (outcome, np, s))"

definition try_block ::
  "externals \<Rightarrow> nat \<Rightarrow> real list option \<Rightarrow> lumopt \<Rightarrow> pass_outcome \<times> real list option \<times> lumopt" where
  "try_block x k new_param s =
     (case global_result_constraint s of
        Some c \<Rightarrow>
          (case x_run x k new_param of
             Fails \<Rightarrow> (Excepted, new_param, s)
           | Gives (sim_res, sim_param) \<Rightarrow>
               (let s1 = s\<lparr>sampling_param := sampling_param s @ [sim_param],
                           sampling_res := sampling_res s @ [sim_res]\<rparr>
                in if c sim_res then
                     (case inverse_design_step x k s1 of
                        (False, s2) \<Rightarrow> (Excepted, new_param, s2)
                      | (True, s2) \<Rightarrow> resample_step x k new_param s2)
                   else resample_step x k new_param s1))
      | None \<Rightarrow>
          (case x_update_geometry x k new_param of
             Fails \<Rightarrow> (Excepted, new_param, s)
           | Gives u \<Rightarrow>
               (case inverse_design_step x k s of
                  (False, s2) \<Rightarrow> (Excepted, new_param, s2)
                | (True, s2) \<Rightarrow> resample_step x k new_param s2)))"

text \<open>
  The \<open>while\<close> loop of lines 139 to 208 on fuel, with the pass number \<open>k\<close>, the next
  parameters and the counter \<open>error_flag\<close> of consecutive errors: an exception adds one
  to it, a completed pass sets it to zero.  The result is the sampler and the number of
  passes made; \<open>None\<close> when the fuel did not suffice or the rejection loop does not end.
\<close>

fun lumopt_loop ::
  "nat \<Rightarrow> externals \<Rightarrow> nat \<Rightarrow> nat option \<Rightarrow> nat \<Rightarrow> real list option \<Rightarrow> nat \<Rightarrow> lumopt
     \<Rightarrow> (lumopt \<times> nat) option" where
  "lumopt_loop 0 x k max_iter max_results new_param error_flag s = None"
| "lumopt_loop (Suc fuel) x k max_iter max_results new_param error_flag s =
     (if below_max_iter (iteration s) max_iter \<and> results_num s < max_results \<and> error_flag < 6 then
        (case try_block x k new_param s of
           (Completed, np, s') \<Rightarrow> lumopt_loop fuel x (Suc k) max_iter max_results np 0 s'
         | (Excepted, np, s') \<Rightarrow>
             lumopt_loop fuel x (Suc k) max_iter max_results np (error_flag + 1) s'
         | (Stuck, np, s') \<Rightarrow> None)
      else Some (s, k))"

text \<open>
  \<open>RandomLumopt.run\<close>: the recorded results and parameters and the number of accepted
  results, with the sampler after the run and the number of passes.
\<close>

definition lumopt_run ::
  "nat \<Rightarrow> externals \<Rightarrow> lumopt \<Rightarrow> nat \<Rightarrow> bool \<Rightarrow> nat option
     \<Rightarrow> ((pyval list \<times> real list list \<times> nat) \<times> lumopt \<times> nat) option" where
  "lumopt_run fuel x s max_results reset_counter max_iter =
     (let s0 = (if reset_counter
                then s\<lparr>iteration := 0, results_num := 0, sampling_param := [], sampling_res := []\<rparr>
                else s)
      in case lumopt_loop fuel x 0 max_iter max_results None 0 s0 of
           None \<Rightarrow> None
         | Some (s', k) \<Rightarrow> Some ((sampling_res s', sampling_param s', results_num s'), s', k))"

section \<open>Concrete inputs\<close>

definition dr1 :: dr_model where
  "dr1 = \<lparr>n_components = 1, trained = True, invert_fn = (\<lambda>x. x), projected_training_data = [[0]]\<rparr>"

definition st0 :: state where
  "st0 = \<lparr>autosave = False, fom_name = (0, ''fom''), data = [], dr = dr1, smaps = [],
          dr_training_index = [], sampler_iteration = 0, sampler_results_num = 0,
          calls = [], saves = 0\<rparr>"

text \<open>A study whose simulation runs and yields the float 0 for every parameter set.\<close>

definition ev_zero :: study where
  "ev_zero h p = Returns (PyFloat 0) (case p of None \<Rightarrow> [] | Some q \<Rightarrow> q)"

text \<open>A study that always succeeds with the float 0.5.\<close>

definition ev_half :: study where
  "ev_half h p = Returns (PyFloat (1/2)) (case p of None \<Rightarrow> [] | Some q \<Rightarrow> q)"

text \<open>A study that returns the failure sentinel for the parameters [2].\<close>

definition ev_fail2 :: study where
  "ev_fail2 h p = (if p = Some [2] then Returns (PyBool False) [2] else ev_half h p)"

text \<open>Precomputed grids of three points and of one point.\<close>

definition grid3 :: "real list list \<times> real list list \<times> real list list" where
  "grid3 = ([[1], [2], [3]], [[1], [2], [3]], [[1], [2], [3]])"

definition grid1 :: "real list list \<times> real list list \<times> real list list" where
  "grid1 = ([[1]], [[1]], [[1]])"

definition st_after1 :: state where
  "st_after1 = st0\<lparr>data := [Sample [1] ''sweeping'' (PyFloat (1/2)) (0, ''fom'')], calls := [Some [1]]\<rparr>"

text \<open>The state after one stored evaluation of the parameters [1, 2].\<close>

definition st_twice :: state where
  "st_twice = st0\<lparr>data := [Sample [1, 2] ''default'' (PyFloat (1/2)) (0, ''fom'')], calls := [Some [1, 2]]\<rparr>"

text \<open>
  The distance \<open>D_i\<close> of axis \<open>i\<close>: the Manhattan distance in the original space
  between the inverted images of the two boundary points of the axis.
\<close>

definition axis_distance :: "dr_model \<Rightarrow> real list \<Rightarrow> real list \<Rightarrow> nat \<Rightarrow> real" where
  "axis_distance m lower_bound upper_bound i =
     manhattan (invert_fn m (axis_point (n_components m) i (lower_bound ! i)))
               (invert_fn m (axis_point (n_components m) i (upper_bound ! i)))"

text \<open>A trained model with two components whose inverse transform is the identity.\<close>

definition dr2 :: dr_model where
  "dr2 = \<lparr>n_components = 2, trained = True, invert_fn = (\<lambda>x. x),
          projected_training_data = [[1, 1], [-1, -1]]\<rparr>"

text \<open>Databases for the filter: one sample with a two-component result, and three samples.\<close>

definition store_two :: "sample list" where
  "store_two = [Sample [1] ''sampling'' (PyList [1/2, 1/2]) (0, ''fom'')]"

definition store_scenario :: "sample list" where
  "store_scenario = [Sample [1] ''sampling'' (PyList [2/10]) (0, ''fom''),
                     Sample [2] ''sampling'' (PyList [8/10]) (0, ''fom''),
                     Sample [3] ''sweeping'' (PyList [95/100]) (0, ''fom'')]"

text \<open>A sampler that reports an error on every call, and externals that always raise.\<close>

definition sampler_error :: "nat \<Rightarrow> sampler_outcome" where
  "sampler_error k = SReturns [] [] False True"

definition x_fail :: externals where
  "x_fail = \<lparr>x_run = (\<lambda>k p. Fails), x_update_geometry = (\<lambda>k p. Fails),
             x_inverse_design = (\<lambda>k. Fails), x_draws = (\<lambda>k. [])\<rparr>"

text \<open>Identities for the names made by an import: the one of sample \<open>i\<close> is \<open>i + 1\<close>.\<close>

definition next_id :: "nat \<Rightarrow> nat" where
  "next_id i = Suc i"

text \<open>
  The state after one failed look-up: the study was called for [1, 2] and nothing is
  stored.  And a state restored from a file: the sample for [1, 2] is stored, its name
  has the characters of the name of the study and is another object.
\<close>

definition st_called :: state where
  "st_called = st0\<lparr>calls := [Some [1, 2]]\<rparr>"

definition st_restored :: state where
  "st_restored = st0\<lparr>data := [Sample [1, 2] ''default'' (PyFloat (1/2)) (7, ''fom'')]\<rparr>"

text \<open>A printable ASCII character other than the backslash and the two quotes.\<close>

definition plain_char :: "char \<Rightarrow> bool" where
  "plain_char c = (32 \<le> (of_char c :: nat) \<and> (of_char c :: nat) < 127
                   \<and> c \<noteq> CHR 0x5C \<and> c \<noteq> CHR 0x27 \<and> c \<noteq> CHR 0x22)"

section \<open>Properties of run_study\<close>

lemma add_sample_data: "snd (add_sample smp ps sname r rname) = smp @ [Sample ps sname r rname]"
  by (simp add: add_sample_def Let_def)

lemma add_sample_idx: "fst (add_sample smp ps sname r rname) = length smp"
  by (simp add: add_sample_def Let_def)

lemma is_sample_from_not_found:
  "\<not> fst (is_sample_from i smp ps n) \<Longrightarrow> snd (is_sample_from i smp ps n) = None"
  by (induction smp arbitrary: i) (auto split: if_splits)

lemma is_sample_not_found: "is_sample smp ps n = (False, b) \<Longrightarrow> b = None"
  using is_sample_from_not_found[of 0 smp ps n] by (simp add: is_sample_def)

lemma run_study_fresh:
  assumes "is_sample (data st) p (fom_name st) = (False, None)"
      and "ev (calls st) (Some p) = Returns r used_param"
      and "py_ne_False r = Ok ok"
  shows "run_study ev st (Some p) name force_run =
           (Ok (Evaluated r, if ok then Some (length (data st)) else None),
            (if autosave st \<and> is_not_False r then save_data else id)
              (if ok then st\<lparr>calls := calls st @ [Some p],
                             data := data st @ [Sample used_param name r (fom_name st)]\<rparr>
               else st\<lparr>calls := calls st @ [Some p]\<rparr>))"
  using assms by (simp add: run_study_def Let_def add_sample_def)

lemma run_study_fresh_raise:
  assumes "is_sample (data st) p (fom_name st) = (False, None)"
      and "ev (calls st) (Some p) = Returns r used_param"
      and "py_ne_False r = Raise e"
  shows "run_study ev st (Some p) name force_run = (Raise e, st\<lparr>calls := calls st @ [Some p]\<rparr>)"
  using assms by (simp add: run_study_def Let_def)

lemma not_found_None: "\<not> fst (is_sample smp ps n) \<Longrightarrow> is_sample smp ps n = (False, None)"
  using is_sample_not_found[of smp ps n] by (cases "is_sample smp ps n") auto

lemma zero_like: "r = PyInt 0 \<or> r = PyFloat 0 \<or> r = PyBool False \<Longrightarrow> py_ne_False r = Ok False"
  by auto

text \<open>
  C10.  When the parameters are not in the database and the study returns \<open>r\<close>, a
  sample is appended exactly when \<open>r != False\<close> holds; otherwise the database is left
  as it was.  In particular the results 0, 0.0 and \<open>False\<close> are all treated alike:
  nothing is stored and the returned index is \<open>None\<close>.
\<close>

theorem run_study_inserts_iff_ne_False:
  assumes "\<not> fst (is_sample (data st) p (fom_name st))"
      and "ev (calls st) (Some p) = Returns r used_param"
  shows "(data (snd (run_study ev st (Some p) name force_run)) =
            data st @ [Sample used_param name r (fom_name st)]) = (py_ne_False r = Ok True)
       \<and> (py_ne_False r \<noteq> Ok True \<longrightarrow> data (snd (run_study ev st (Some p) name force_run)) = data st)
       \<and> (r = PyInt 0 \<or> r = PyFloat 0 \<or> r = PyBool False \<longrightarrow>
            run_study ev st (Some p) name force_run =
              (Ok (Evaluated r, None),
               (if autosave st \<and> r \<noteq> PyBool False then save_data else id)
                 (st\<lparr>calls := calls st @ [Some p]\<rparr>)))"
proof -
  note nf = not_found_None[OF assms(1)]
  show ?thesis
  proof (cases "py_ne_False r")
    case (Raise e)
    have "\<not> (r = PyInt 0 \<or> r = PyFloat 0 \<or> r = PyBool False)"
      using Raise zero_like by fastforce
    then show ?thesis
      using run_study_fresh_raise[of st p ev r used_param e name force_run] nf assms(2) Raise by simp
  next
    case (Ok ok)
    show ?thesis
      using run_study_fresh[of st p ev r used_param ok name force_run] nf assms(2) Ok zero_like[of r]
      by (cases ok) (auto simp: save_data_def is_not_False_def)
  qed
qed

theorem run_study_inserts_iff_ne_False_witness:
  "\<not> fst (is_sample (data st0) [1, 2] (fom_name st0))
   \<and> ev_zero (calls st0) (Some [1, 2]) = Returns (PyFloat 0) [1, 2]
   \<and> py_ne_False (PyFloat 0) \<noteq> Ok True
   \<and> data (snd (run_study ev_zero st0 (Some [1, 2]) ''sweeping'' False)) = []
   \<and> fst (run_study ev_zero st0 (Some [1, 2]) ''sweeping'' False) = Ok (Evaluated (PyFloat 0), None)"
  using run_study_inserts_iff_ne_False [of st0 "[1, 2]" ev_zero "PyFloat 0" "[1, 2]" "''sweeping''" False]
  by (simp add: st0_def ev_zero_def is_sample_def)

section \<open>Properties of subspace_sweep\<close>

lemma run_study_smaps: "smaps (snd (run_study ev st param name force_run)) = smaps st"
  by (simp add: run_study_def Let_def add_sample_def save_data_def
           split: prod.split option.split outcome.split res.split)

lemma run_study_frame:
  "autosave (snd (run_study ev st param name force_run)) = autosave st
   \<and> fom_name (snd (run_study ev st param name force_run)) = fom_name st
   \<and> dr (snd (run_study ev st param name force_run)) = dr st
   \<and> dr_training_index (snd (run_study ev st param name force_run)) = dr_training_index st"
  by (simp add: run_study_def Let_def add_sample_def save_data_def
           split: prod.split option.split outcome.split res.split)

lemma run_study_data:
  "\<exists>new. data (snd (run_study ev st param name force_run)) = data st @ new \<and> length new \<le> 1"
  by (simp add: run_study_def Let_def add_sample_def save_data_def
           split: prod.split option.split outcome.split res.split)


lemma sweep_loop_smaps: "smaps (snd (sweep_loop ev st grid acc)) = smaps st"
proof (induction grid arbitrary: st acc)
  case Nil
  then show ?case by simp
next
  case (Cons p grid)
  obtain r st' where rs: "run_study ev st (Some p) ''sweeping'' False = (r, st')"
    by (cases "run_study ev st (Some p) ''sweeping'' False")
  have sm: "smaps st' = smaps st"
    using run_study_smaps[of ev st "Some p" "''sweeping''" False] rs by simp
  show ?case
    using rs sm Cons.IH[of st']
    by (simp split: res.split prod.split)
qed

lemma sweep_loop_data:
  "\<exists>new. data (snd (sweep_loop ev st grid acc)) = data st @ new \<and> length new \<le> length grid"
proof (induction grid arbitrary: st acc)
  case Nil
  then show ?case by simp
next
  case (Cons p grid)
  obtain r st' where rs: "run_study ev st (Some p) ''sweeping'' False = (r, st')"
    by (cases "run_study ev st (Some p) ''sweeping'' False")
  obtain n1 where n1: "data st' = data st @ n1" "length n1 \<le> 1"
    using run_study_data[of ev st "Some p" "''sweeping''" False] rs by auto
  show ?case
  proof (cases "\<exists>v idx. r = Ok (v, idx) \<and> res_eq_False v = Ok False")
    case True
    then obtain v idx where v: "r = Ok (v, idx)" "res_eq_False v = Ok False" by blast
    obtain n2 where n2: "data (snd (sweep_loop ev st' grid (acc @ [idx]))) = data st' @ n2"
        "length n2 \<le> length grid"
      using Cons.IH[of st' "acc @ [idx]"] by blast
    have "data (snd (sweep_loop ev st (p # grid) acc)) = data st @ (n1 @ n2)"
      using rs v n1 n2 by simp
    moreover have "length (n1 @ n2) \<le> length (p # grid)" using n1 n2 by simp
    ultimately show ?thesis by blast
  next
    case False
    have "snd (sweep_loop ev st (p # grid) acc) = st'"
      using rs False by (auto split: res.split prod.split)
    then show ?thesis using n1 by auto
  qed
qed

lemma sweep_loop_append:
  "sweep_loop ev st (xs @ ys) acc =
     (case sweep_loop ev st xs acc of
        (Raise e, st') \<Rightarrow> (Raise e, st')
      | (Ok acc', st') \<Rightarrow> sweep_loop ev st' ys acc')"
  by (induction xs arbitrary: st acc) (auto split: res.split prod.split)

lemma sweep_loop_fails:
  assumes "sweep_loop ev st pre [] = (Ok idxs, st1)"
      and "\<not> fst (is_sample (data st1) p (fom_name st1))"
      and "ev (calls st1) (Some p) = Returns (PyBool False) used_param"
  shows "sweep_loop ev st (pre @ p # post) [] = (Raise SweepFailed, st1\<lparr>calls := calls st1 @ [Some p]\<rparr>)"
proof -
  have nf: "is_sample (data st1) p (fom_name st1) = (False, None)"
    using assms(2) by (rule not_found_None)
  have "run_study ev st1 (Some p) ''sweeping'' False =
          (Ok (Evaluated (PyBool False), None), st1\<lparr>calls := calls st1 @ [Some p]\<rparr>)"
    using run_study_fresh[of st1 p ev "PyBool False" used_param False "''sweeping''" False] nf assms(3)
    by (simp add: is_not_False_def)
  then show ?thesis
    using assms(1) by (simp add: sweep_loop_append)
qed


text \<open>
  C1.  All-or-nothing sweep.  The grid is \<open>pre @ p # post\<close>; the points of \<open>pre\<close>
  have been swept without failure, reaching the state \<open>st1\<close>, and the study returns the
  failure sentinel \<open>False\<close> for \<open>p\<close>.  Then \<open>subspace_sweep\<close> returns \<open>None\<close>, the
  list of maps is the one before the sweep, and the database is the one reached before
  the failing evaluation: the samples inserted for \<open>pre\<close> stay, nothing else is added.
\<close>

theorem subspace_sweep_all_or_nothing:
  assumes "(case grid_arg of None \<Rightarrow> subspace_mesh (dr st) distance n_points boundaries
                           | Some g \<Rightarrow> Ok g) = Ok (pre @ p # post, pg, npg)"
      and "go \<or> response = ''y''"
      and "sweep_loop ev st pre [] = (Ok idxs, st1)"
      and "\<not> fst (is_sample (data st1) p (fom_name st1))"
      and "ev (calls st1) (Some p) = Returns (PyBool False) used_param"
  shows "fst (subspace_sweep ev st distance n_points boundaries grid_arg go response) = Ok None
       \<and> smaps (snd (subspace_sweep ev st distance n_points boundaries grid_arg go response)) = smaps st
       \<and> data (snd (subspace_sweep ev st distance n_points boundaries grid_arg go response)) = data st1
       \<and> (\<exists>new. data st1 = data st @ new \<and> length new \<le> length pre)"
proof -
  have loop: "sweep_loop ev st (pre @ p # post) [] =
                (Raise SweepFailed, st1\<lparr>calls := calls st1 @ [Some p]\<rparr>)"
    using assms(3-5) by (rule sweep_loop_fails)
  have sw: "subspace_sweep ev st distance n_points boundaries grid_arg go response =
              (Ok None, st1\<lparr>calls := calls st1 @ [Some p]\<rparr>)"
    using assms(1,2) loop by (auto simp: subspace_sweep_def)
  have sm: "smaps st1 = smaps st"
    using sweep_loop_smaps[of ev st pre "[]"] assms(3) by simp
  have dt: "\<exists>new. data st1 = data st @ new \<and> length new \<le> length pre"
    using sweep_loop_data[of ev st pre "[]"] assms(3) by simp
  show ?thesis using sw sm dt by simp
qed

lemma sweep_pre1: "sweep_loop ev_fail2 st0 [[1]] [] = (Ok [Some 0], st_after1)"
  by (simp add: run_study_def Let_def st0_def st_after1_def ev_fail2_def ev_half_def is_sample_def
        add_sample_def is_not_False_def)

theorem subspace_sweep_all_or_nothing_witness:
  "(case Some grid3 of None \<Rightarrow> subspace_mesh (dr st0) ArgNone ArgNone None | Some g \<Rightarrow> Ok g)
     = Ok ([[1]] @ [2] # [[3]], [[1], [2], [3]], [[1], [2], [3]])
   \<and> sweep_loop ev_fail2 st0 [[1]] [] = (Ok [Some 0], st_after1)
   \<and> \<not> fst (is_sample (data st_after1) [2] (fom_name st_after1))
   \<and> ev_fail2 (calls st_after1) (Some [2]) = Returns (PyBool False) [2]
   \<and> fst (subspace_sweep ev_fail2 st0 ArgNone ArgNone None (Some grid3) True []) = Ok None
   \<and> smaps (snd (subspace_sweep ev_fail2 st0 ArgNone ArgNone None (Some grid3) True [])) = []
   \<and> data (snd (subspace_sweep ev_fail2 st0 ArgNone ArgNone None (Some grid3) True []))
        = [Sample [1] ''sweeping'' (PyFloat (1/2)) (0, ''fom'')]"
proof -
  have g: "(case Some grid3 of None \<Rightarrow> subspace_mesh (dr st0) ArgNone ArgNone None | Some g \<Rightarrow> Ok g)
     = Ok ([[1]] @ [2] # [[3]], [[1], [2], [3]], [[1], [2], [3]])"
    by (simp add: grid3_def)
  have f: "\<not> fst (is_sample (data st_after1) [2] (fom_name st_after1))"
    by (simp add: st_after1_def st0_def is_sample_def Sample_def)
  have e: "ev_fail2 (calls st_after1) (Some [2]) = Returns (PyBool False) [2]"
    by (simp add: ev_fail2_def)
  have d: "data st_after1 = [Sample [1] ''sweeping'' (PyFloat (1/2)) (0, ''fom'')]" "smaps st0 = []"
    by (simp_all add: st_after1_def st0_def)
  show ?thesis
    using subspace_sweep_all_or_nothing [OF g _ sweep_pre1 f e, of True "[]"] g f e d sweep_pre1
    by simp
qed

text \<open>
  C6.  A successful sweep appends one map, but the \<open>return\<close> of its index sits inside
  \<open>if self.set.autosave:\<close>.  Without autosave, a sweep of the one-point grid in which
  the evaluation succeeds appends the map and returns \<open>None\<close>, not the index 0.
\<close>

theorem subspace_sweep_no_autosave_returns_None:
  "subspace_sweep ev_half st0 ArgNone ArgNone None (Some grid1) True [] =
     (Ok None,
      st0\<lparr>data := [Sample [1] ''sweeping'' (PyFloat (1/2)) (0, ''fom'')], calls := [Some [1]],
          smaps := [Map dr1 [] [[1]] [[1]] [Some 0]]\<rparr>)"
  by (simp add: subspace_sweep_def grid1_def run_study_def Let_def st0_def ev_half_def is_sample_def
        add_sample_def is_not_False_def)

text \<open>With autosave the same sweep returns the index of the new map.\<close>

lemma subspace_sweep_autosave_returns_index:
  "fst (subspace_sweep ev_half (st0\<lparr>autosave := True\<rparr>) ArgNone ArgNone None (Some grid1) True []) =
     Ok (Some 0)"
  by (simp add: subspace_sweep_def grid1_def run_study_def Let_def st0_def ev_half_def is_sample_def
        add_sample_def is_not_False_def save_data_def maps_getter_def view_of_def Map_def get_def dr1_def)


section \<open>Idempotence of run_study\<close>

lemma is_sample_from_found:
  "fst (is_sample_from i smp ps n) \<Longrightarrow>
     \<exists>j. is_sample_from i smp ps n = (True, Some (i + j)) \<and> j < length smp
         \<and> parameters (smp ! j) = ps \<and> result_name (smp ! j) = n"
proof (induction smp arbitrary: i)
  case Nil
  then show ?case by simp
next
  case (Cons s smp)
  show ?case
  proof (cases "parameters s = ps \<and> result_name s = n")
    case True
    then have "is_sample_from i (s # smp) ps n = (True, Some (i + 0))" by simp
    then show ?thesis using True by (intro exI[of _ 0]) simp
  next
    case False
    then have eq: "is_sample_from i (s # smp) ps n = is_sample_from (Suc i) smp ps n" by auto
    with Cons.prems have "fst (is_sample_from (Suc i) smp ps n)" by simp
    from Cons.IH[OF this] obtain j where
      j: "is_sample_from (Suc i) smp ps n = (True, Some (Suc i + j))" "j < length smp"
         "parameters (smp ! j) = ps" "result_name (smp ! j) = n" by blast
    show ?thesis using eq j by (intro exI[of _ "Suc j"]) simp
  qed
qed

lemma is_sample_found:
  "fst (is_sample smp ps n) \<Longrightarrow>
     \<exists>j. is_sample smp ps n = (True, Some j) \<and> j < length smp
         \<and> parameters (smp ! j) = ps \<and> result_name (smp ! j) = n"
  using is_sample_from_found[of 0 smp ps n] by (simp add: is_sample_def)

lemma is_sample_from_append_new:
  "\<not> fst (is_sample_from i smp ps n) \<Longrightarrow> parameters s = ps \<Longrightarrow> result_name s = n \<Longrightarrow>
     is_sample_from i (smp @ [s]) ps n = (True, Some (i + length smp))"
  by (induction smp arbitrary: i) (auto split: if_splits)

lemma is_sample_append_new:
  "\<not> fst (is_sample smp ps n) \<Longrightarrow>
     is_sample (smp @ [Sample ps sname r n]) ps n = (True, Some (length smp))"
  using is_sample_from_append_new[of 0 smp ps n "Sample ps sname r n"]
  by (simp add: is_sample_def Sample_def)

lemma run_study_stored:
  "is_sample (data st) p (fom_name st) = (True, Some i) \<Longrightarrow>
     run_study ev st (Some p) name False =
       (Ok (Stored (result (data st ! i)), Some i), if autosave st then save_data st else st)"
  by (simp add: run_study_def Let_def)

text \<open>
  An evaluation is not always stored.  The study evaluates [1, 2] with the result 0.0,
  which compares equal to \<open>False\<close>: no sample is stored, the first call returns no
  index, and the second call with the same parameters calls the study again.
\<close>

theorem run_study_twice_evaluates_twice:
  "run_study ev_zero st0 (Some [1, 2]) ''default'' False =
     (Ok (Evaluated (PyFloat 0), None), st_called)
   \<and> run_study ev_zero st_called (Some [1, 2]) ''default'' False =
     (Ok (Evaluated (PyFloat 0), None), st_called\<lparr>calls := [Some [1, 2], Some [1, 2]]\<rparr>)
   \<and> calls (snd (run_study ev_zero st_called (Some [1, 2]) ''default'' False)) \<noteq> calls st_called"
  by (simp add: run_study_def Let_def st0_def st_called_def ev_zero_def is_sample_def
        is_not_False_def)

text \<open>
  A stored sample is found only under the very name object of the study.  In a
  restored database the name of the sample for [1, 2] has the same characters and is
  another object: the study is called again and a second sample is stored.
\<close>

lemma run_study_restored_store_evaluates_again:
  "run_study ev_half st_restored (Some [1, 2]) ''default'' False =
     (Ok (Evaluated (PyFloat (1/2)), Some 1),
      st_restored\<lparr>data := data st_restored @ [Sample [1, 2] ''default'' (PyFloat (1/2)) (0, ''fom'')],
                   calls := [Some [1, 2]]\<rparr>)"
  by (simp add: run_study_def Let_def st0_def st_restored_def ev_half_def is_sample_def
        add_sample_def is_not_False_def Sample_def)

text \<open>
  C4.  Idempotent evaluation, for parameters whose evaluation is in the database.  Two
  calls of \<open>run_study\<close> with the same parameters and \<open>force_run = False\<close>, where
  \<open>is_sample\<close> finds the parameters under the name object of the study, or where they
  are new and the first call stores them (the result of the study compares unequal to
  \<open>False\<close> and the study reports the given parameters as the used ones).  Both calls
  return the same index, of a sample with these parameters and this name object; the
  second returns the stored result, adds no sample and does not call the study; the
  study is called once if the parameters were new and not at all otherwise.
\<close>

theorem run_study_idempotent:
  assumes "fst (is_sample (data st) p (fom_name st))
           \<or> (ev (calls st) (Some p) = Returns r p \<and> py_ne_False r = Ok True)"
      and "run_study ev st (Some p) name False = (r1, st1)"
      and "run_study ev st1 (Some p) name' False = (r2, st2)"
  shows "\<exists>i v. r1 = Ok (v, Some i) \<and> r2 = Ok (Stored (result (data st1 ! i)), Some i)
           \<and> i < length (data st1) \<and> parameters (data st1 ! i) = p
           \<and> result_name (data st1 ! i) = fom_name st
           \<and> data st2 = data st1 \<and> calls st2 = calls st1
           \<and> calls st1 = (if fst (is_sample (data st) p (fom_name st)) then calls st
                           else calls st @ [Some p])"
proof (cases "fst (is_sample (data st) p (fom_name st))")
  case True
  then obtain j where j: "is_sample (data st) p (fom_name st) = (True, Some j)"
      "j < length (data st)" "parameters (data st ! j) = p"
      "result_name (data st ! j) = fom_name st"
    using is_sample_found by blast
  have one: "r1 = Ok (Stored (result (data st ! j)), Some j)"
       "st1 = (if autosave st then save_data st else st)"
    using run_study_stored[OF j(1), of ev name] assms(2) by simp_all
  have same: "data st1 = data st" "fom_name st1 = fom_name st" "calls st1 = calls st"
    using one(2) by (simp_all add: save_data_def)
  have two: "r2 = Ok (Stored (result (data st1 ! j)), Some j)"
       "st2 = (if autosave st1 then save_data st1 else st1)"
    using run_study_stored[of st1 p j ev name'] j(1) same assms(3) by simp_all
  have "data st2 = data st1" "calls st2 = calls st1"
    using two(2) by (simp_all add: save_data_def)
  then show ?thesis using one(1) two(1) j same True by simp
next
  case False
  then have ev: "ev (calls st) (Some p) = Returns r p" "py_ne_False r = Ok True"
    using assms(1) by simp_all
  have nf: "is_sample (data st) p (fom_name st) = (False, None)"
    using False by (rule not_found_None)
  let ?n = "length (data st)"
  have one: "r1 = Ok (Evaluated r, Some ?n)"
       "data st1 = data st @ [Sample p name r (fom_name st)]"
       "calls st1 = calls st @ [Some p]" "fom_name st1 = fom_name st"
    using run_study_fresh[of st p ev r p True name False] nf ev assms(2)
    by (auto simp: save_data_def)
  have found: "is_sample (data st1) p (fom_name st1) = (True, Some ?n)"
    using is_sample_append_new[of "data st" p "fom_name st" name r] False one by simp
  have two: "r2 = Ok (Stored (result (data st1 ! ?n)), Some ?n)"
       "st2 = (if autosave st1 then save_data st1 else st1)"
    using run_study_stored[OF found, of ev name'] assms(3) by simp_all
  have "data st2 = data st1" "calls st2 = calls st1"
    using two(2) by (simp_all add: save_data_def)
  moreover have "parameters (data st1 ! ?n) = p" "result_name (data st1 ! ?n) = fom_name st"
    using one(2) by (simp_all add: Sample_def)
  ultimately show ?thesis using one two(1) False by simp
qed

theorem run_study_idempotent_witness:
  "ev_half (calls st0) (Some [1, 2]) = Returns (PyFloat (1/2)) [1, 2]
   \<and> py_ne_False (PyFloat (1/2)) = Ok True
   \<and> run_study ev_half st0 (Some [1, 2]) ''default'' False = (Ok (Evaluated (PyFloat (1/2)), Some 0), st_twice)
   \<and> run_study ev_half st_twice (Some [1, 2]) ''default'' False = (Ok (Stored [PyFloat (1/2)], Some 0), st_twice)
   \<and> calls st_twice = [Some [1, 2]]"
proof -
  have a: "ev_half (calls st0) (Some [1, 2]) = Returns (PyFloat (1/2)) [1, 2]
           \<and> py_ne_False (PyFloat (1/2)) = Ok True"
    by (simp add: ev_half_def)
  have b: "run_study ev_half st0 (Some [1, 2]) ''default'' False
             = (Ok (Evaluated (PyFloat (1/2)), Some 0), st_twice)"
    by (simp add: run_study_def Let_def st0_def st_twice_def ev_half_def is_sample_def
          add_sample_def is_not_False_def)
  have c: "run_study ev_half st_twice (Some [1, 2]) ''default'' False
             = (Ok (Stored [PyFloat (1/2)], Some 0), st_twice)"
    by (simp add: run_study_def Let_def st0_def st_twice_def is_sample_def Sample_def)
  show ?thesis
    using run_study_idempotent [of st0 "[1, 2]" ev_half "PyFloat (1/2)" "''default''" _ st_twice "''default''" _ st_twice]
      a b c
    by (simp add: st_twice_def)
qed


section \<open>Properties of subspace_mesh\<close>

lemma length_linspace: "linspace lo hi num = Ok samp \<Longrightarrow> int (length samp) = num"
  by (cases "num < 0"; cases "num = 1") (auto simp: linspace_def)


lemma linspace_one: "linspace lo hi 1 = Ok [lo]"
  by (simp add: linspace_def)

lemma mesh_axis_unfold:
  assumes "trained m" "i < length lb" "i < length ub"
  shows "mesh_axis m flag lb ub dv nv i =
     res_bind (if flag
               then res_bind (get dv i) (\<lambda>d.
                    res_bind (ceil_points (axis_distance m lb ub i) d) (\<lambda>num. Ok (num, d)))
               else res_bind (get nv i) (\<lambda>num.
                    Ok (num, axis_distance m lb ub i / real_of_int (num - 1)))) (\<lambda>(num, d).
     res_bind (linspace (lb ! i) (ub ! i) num) (\<lambda>samp.
       if length samp > 0 then
         res_bind (get samp 1) (\<lambda>s1.
         res_bind (get samp 0) (\<lambda>s0.
           Ok (num, d, samp, map (\<lambda>s. s / (s1 - s0) * d) samp)))
       else Ok (num, d, samp, samp)))"
  using assms by (simp add: mesh_axis_def get_def invert_model_def axis_distance_def Let_def)







lemma res_bind_Ok: "res_bind x f = Ok y \<Longrightarrow> \<exists>v. x = Ok v \<and> f v = Ok y"
  by (cases x) simp_all

lemma mesh_axis_Ok_pre:
  assumes "mesh_axis m flag lb ub dv nv i = Ok r"
  shows "trained m \<and> i < length lb \<and> i < length ub"
proof -
  from assms obtain lo where lo: "get lb i = Ok lo"
    unfolding mesh_axis_def by (blast dest: res_bind_Ok)
  from assms lo obtain a where a: "invert_model m (axis_point (n_components m) i lo) = Ok a"
    unfolding mesh_axis_def by (auto dest!: res_bind_Ok)
  from assms lo a obtain hi where hi: "get ub i = Ok hi"
    unfolding mesh_axis_def by (auto dest!: res_bind_Ok)
  show ?thesis
    using lo a hi by (auto simp: get_def invert_model_def split: if_splits)
qed

text \<open>
  Whenever the pass for an axis returns, in either mode, the number of samples of the
  axis is the number of points, and the number of points and the distance are related
  to \<open>D_i\<close> as above.
\<close>

lemma mesh_axis_returns:
  assumes "mesh_axis m flag lb ub dv nv i = Ok (num, d, samp, normalized)"
  shows "int (length samp) = num
       \<and> (if flag then d = dv ! i \<and> num = \<lceil>axis_distance m lb ub i / d\<rceil> + 1
           else num = nv ! i \<and> d = axis_distance m lb ub i / real_of_int (num - 1))"
proof -
  have pre: "trained m" "i < length lb" "i < length ub"
    using mesh_axis_Ok_pre[OF assms] by simp_all
  let ?D = "axis_distance m lb ub i"
  from assms obtain nd where
    nd: "(if flag
          then res_bind (get dv i) (\<lambda>d. res_bind (ceil_points ?D d) (\<lambda>num. Ok (num, d)))
          else res_bind (get nv i) (\<lambda>num. Ok (num, ?D / real_of_int (num - 1)))) = Ok nd"
    and tail: "(case nd of (num, d) \<Rightarrow>
        res_bind (linspace (lb ! i) (ub ! i) num) (\<lambda>samp.
          if length samp > 0 then
            res_bind (get samp 1) (\<lambda>s1.
            res_bind (get samp 0) (\<lambda>s0.
              Ok (num, d, samp, map (\<lambda>s. s / (s1 - s0) * d) samp)))
          else Ok (num, d, samp, samp))) = Ok (num, d, samp, normalized)"
    unfolding mesh_axis_unfold[OF pre] by (blast dest: res_bind_Ok)
  obtain n' d' where ndeq: "nd = (n', d')" by (cases nd)
  from tail ndeq obtain sp where
    sp: "linspace (lb ! i) (ub ! i) n' = Ok sp"
    and fin: "(if length sp > 0 then
            res_bind (get sp 1) (\<lambda>s1.
            res_bind (get sp 0) (\<lambda>s0.
              Ok (n', d', sp, map (\<lambda>s. s / (s1 - s0) * d') sp)))
          else Ok (n', d', sp, sp)) = Ok (num, d, samp, normalized)"
    by (auto dest!: res_bind_Ok)
  have same: "n' = num \<and> d' = d \<and> sp = samp"
  proof (cases "length sp > 0")
    case True
    with fin obtain s1 s0 where
      "Ok (n', d', sp, map (\<lambda>s. s / (s1 - s0) * d') sp) = Ok (num, d, samp, normalized)"
      by (auto dest!: res_bind_Ok)
    then show ?thesis by simp
  next
    case False
    with fin show ?thesis by simp
  qed
  have len: "int (length samp) = num"
    using length_linspace[OF sp] same by simp
  have sizing: "if flag then d = dv ! i \<and> num = \<lceil>?D / d\<rceil> + 1
                else num = nv ! i \<and> d = ?D / real_of_int (num - 1)"
  proof (cases flag)
    case True
    with nd obtain dd where dd: "get dv i = Ok dd"
        and c: "res_bind (ceil_points ?D dd) (\<lambda>num. Ok (num, dd)) = Ok nd"
      by (auto dest!: res_bind_Ok)
    from c obtain nn where nn: "ceil_points ?D dd = Ok nn" and e: "nd = (nn, dd)"
      by (auto dest!: res_bind_Ok)
    have "dd = dv ! i" using dd by (simp add: get_def split: if_splits)
    moreover have "nn = \<lceil>?D / dd\<rceil> + 1"
      using nn by (simp add: ceil_points_def split: if_splits)
    ultimately show ?thesis using True e ndeq same by simp
  next
    case False
    with nd obtain nn where nn: "get nv i = Ok nn"
        and e: "nd = (nn, ?D / real_of_int (nn - 1))"
      by (auto dest!: res_bind_Ok)
    have "nn = nv ! i" using nn by (simp add: get_def split: if_splits)
    then show ?thesis using False e ndeq same by simp
  qed
  show ?thesis using len sizing by simp
qed

lemma mesh_axis_one_point:
  assumes "trained m" "i < length lower_bound" "i < length upper_bound"
      and "i < length n_points_vector" "n_points_vector ! i = 1"
  shows "mesh_axis m False lower_bound upper_bound dist_vector n_points_vector i = Raise IndexError"
  using assms(4,5) by (simp add: mesh_axis_unfold[OF assms(1-3)] get_def linspace_def)

text \<open>
  C8.  One point on an axis.  The test \<open>len(samp) > 0\<close> also holds for a single
  sample, so \<open>samp[1]\<close> is read and raises \<open>IndexError\<close>: with \<open>n_points = 1\<close> the
  mesh of a trained one-component model is not returned.
\<close>

theorem subspace_mesh_one_point_raises:
  "subspace_mesh dr1 ArgNone (ArgScalar 1) (Some ([-1], [1])) = Raise IndexError"
proof -
  have "mesh_axis dr1 False [-1] [1] [0] [1] 0 = Raise IndexError"
    by (rule mesh_axis_one_point) (simp_all add: dr1_def)
  then show ?thesis
    by (simp add: subspace_mesh_def mesh_vectors_def mesh_bounds_def dr1_def)
qed

text \<open>
  C9.  A NumPy array with one value per axis, for \<open>distance\<close> or for \<open>n_points\<close>,
  never reaches the branch written for it: the tests \<open>n_points == None\<close> and
  \<open>distance == None\<close> compare the array element by element and its truth value raises
  \<open>ValueError\<close>.
\<close>

theorem subspace_mesh_array_argument_raises:
  "subspace_mesh dr2 (ArgArray (1/2) [1/2]) ArgNone (Some ([-1, -2], [1, 2])) = Raise ValueError
   \<and> subspace_mesh dr2 ArgNone (ArgArray 3 [3]) (Some ([-1, -2], [1, 2])) = Raise ValueError"
  by (simp add: subspace_mesh_def mesh_vectors_def)

text \<open>
  A Python list with one value per axis is broadcast by \<open>np.ones(n) * distance\<close> and
  gives the per-axis mesh.
\<close>

lemma upt3: "[0..<3] = [0, 1, 2]" by (simp add: upt_rec)
lemma upt5: "[0..<5] = [0, 1, 2, 3, 4]" by (simp add: upt_rec)
lemma upt2: "[0..<2] = [0, 1]" by (simp add: upt_rec)

lemma axis0: "mesh_axis dr2 True [-1, -2] [1, 2] [1, 2] [0, 0] 0 = Ok (3, 1, [-1, 0, 1], [-1, 0, 1])"
  by (simp add: mesh_axis_def get_def invert_model_def dr2_def axis_point_def manhattan_def
        numeral_2_eq_2 ceil_points_def linspace_def upt3 Let_def)

lemma axis1: "mesh_axis dr2 True [-1, -2] [1, 2] [1, 2] [0, 0] (Suc 0) = Ok (3, 2, [-2, 0, 2], [-2, 0, 2])"
  by (simp add: mesh_axis_def get_def invert_model_def dr2_def axis_point_def manhattan_def
        numeral_2_eq_2 ceil_points_def linspace_def upt3 Let_def)

lemma subspace_mesh_list_argument:
  "subspace_mesh dr2 (ArgList [1, 2]) ArgNone (Some ([-1, -2], [1, 2])) =
     Ok (product_lists [[-1, 0, 1], [-2, 0, 2]], product_lists [[-1, 0, 1], [-2, 0, 2]],
         product_lists [[-1, 0, 1], [-2, 0, 2]])"
proof -
  have n: "n_components dr2 = 2" "trained dr2" "invert_fn dr2 = (\<lambda>x. x)" by (simp_all add: dr2_def)
  have v: "mesh_vectors 2 (ArgList [1, 2]) ArgNone = Ok ([1, 2], [0, 0], True)"
    by (simp add: mesh_vectors_def broadcast_def numeral_2_eq_2)
  have b: "mesh_bounds dr2 (Some ([-1, -2], [1, 2])) = Ok ([-1, -2], [1, 2])"
    by (simp add: mesh_bounds_def)
  have a: "mesh_axes dr2 True [-1, -2] [1, 2] [1, 2] [0, 0] [0..<2] =
             Ok ([[-1, 0, 1], [-2, 0, 2]], [[-1, 0, 1], [-2, 0, 2]])"
    by (simp add: upt2 axis0 axis1)
  show ?thesis
    by (simp add: subspace_mesh_def n v b a invert_rows_def Let_def)
qed


section \<open>Properties of filter_simulation\<close>

text \<open>
  C2.  Filtering on several result components.  With \<open>result_index = [0, 1]\<close>,
  \<open>lower_bound = [0.1, None]\<close> and \<open>upper_bound = [None, 0.9]\<close>, a sample with the
  result \<open>[0.5, 0.5]\<close> satisfies every bound and should be returned; the call raises
  \<open>TypeError\<close> instead, since line 132 indexes the stored list with the list of indices.
\<close>

theorem filter_simulation_index_list_raises:
  "filter_simulation store_two ''fom'' (IdxList [0, 1]) StageNone
     (BList (Some (1/10)) [None]) (BList None [Some (9/10)]) = Raise TypeError"
  by (simp add: filter_simulation_def store_two_def Sample_def include_sample_def)

text \<open>With a list of indices the call returns only when no sample has the name and the stage.\<close>

lemma filter_from_index_list:
  "filter_from i smp rname (IdxList ks) stage lb ub =
     (if list_ex (\<lambda>s. snd (result_name s) = rname \<and> stage_ok stage (simulation_name s)) smp
      then Raise TypeError else Ok ([], [], []))"
  by (induction smp arbitrary: i) (simp_all add: include_sample_def)

text \<open>With a single index the filter works: the scenario of three samples returns index 1.\<close>

lemma filter_simulation_scenario:
  "filter_simulation store_scenario ''fom'' (IdxInt 0) (StageList [''sampling''])
     (BList (Some (1/2)) []) BNone = Ok ([[2]], [[PyFloat (8/10)]], [1])"
  by (simp add: filter_simulation_def store_scenario_def Sample_def include_sample_def py_index_def)


section \<open>Properties of the sampling loops\<close>

text \<open>In \<open>run_sampling\<close> the counter is 1 after every error, so errors alone never end the loop.\<close>

lemma run_sampling_loop_error_flag:
  "below_max_iter (sampler_iteration st) max_iter \<Longrightarrow> sampler_results_num st < max_results \<Longrightarrow>
   error_num \<le> 1 \<Longrightarrow>
   run_sampling_loop fuel sampler_error k max_iter max_results error_num st = None"
proof (induction fuel arbitrary: k error_num st)
  case 0
  then show ?case by simp
next
  case (Suc fuel)
  let ?st' = "if autosave st then save_data st else st"
  have keep: "below_max_iter (sampler_iteration ?st') max_iter"
      "sampler_results_num ?st' < max_results"
    using Suc.prems(1,2) by (simp_all add: save_data_def)
  have "run_sampling_loop (Suc fuel) sampler_error k max_iter max_results error_num st =
          run_sampling_loop fuel sampler_error (Suc k) max_iter max_results 1 ?st'"
    using Suc.prems by (simp add: sampler_error_def Let_def)
  also have "\<dots> = None"
    using keep by (intro Suc.IH) simp_all
  finally show ?case .
qed

text \<open>
  C3.  The budget of six consecutive errors.  In \<open>run_sampling\<close> an error executes
  \<open>error_num =+ 1\<close>, which assigns 1: with a sampler that reports an error on every
  call, up to one good result asked and no limit of iterations, the loop is still
  running after any number of passes, where the specification has it end after six.
\<close>

theorem run_sampling_error_budget_never_reached:
  "\<forall>fuel. run_sampling fuel sampler_error st0 1 False None = None"
  using run_sampling_loop_error_flag[of st0 None 1 0 _ 0]
  by (simp add: run_sampling_def st0_def below_max_iter_def)

text \<open>
  The loop of \<open>RandomLumopt.run\<close> counts with \<open>error_flag += 1\<close>: when every external
  call raises it ends after exactly six passes and leaves the sampler as it was, so the
  number of accepted results is still below \<open>max_results\<close>.
\<close>

lemma try_block_x_fail: "try_block x_fail k new_param s = (Excepted, new_param, s)"
  by (cases "global_result_constraint s") (simp_all add: try_block_def x_fail_def)

lemma lumopt_loop_x_fail:
  "below_max_iter (iteration s) max_iter \<Longrightarrow> results_num s < max_results \<Longrightarrow> error_flag \<le> 6 \<Longrightarrow>
   6 - error_flag < fuel \<Longrightarrow>
   lumopt_loop fuel x_fail k max_iter max_results new_param error_flag s
     = Some (s, k + (6 - error_flag))"
proof (induction fuel arbitrary: k error_flag)
  case 0
  then show ?case by simp
next
  case (Suc fuel)
  show ?case
  proof (cases "error_flag < 6")
    case True
    have "lumopt_loop (Suc fuel) x_fail k max_iter max_results new_param error_flag s =
            lumopt_loop fuel x_fail (Suc k) max_iter max_results new_param (error_flag + 1) s"
      using Suc.prems(1,2) True by (simp add: try_block_x_fail)
    also have "\<dots> = Some (s, Suc k + (6 - (error_flag + 1)))"
      using Suc.prems True by (intro Suc.IH) auto
    finally show ?thesis using True by simp
  next
    case False
    then show ?thesis using Suc.prems by simp
  qed
qed

lemma lumopt_run_error_budget:
  assumes "below_max_iter (iteration s) max_iter" "results_num s < max_results" "6 < fuel"
  shows "lumopt_run fuel x_fail s max_results False max_iter =
           Some ((sampling_res s, sampling_param s, results_num s), s, 6)"
  using lumopt_loop_x_fail[of s max_iter max_results 0 fuel 0 None] assms
  by (simp add: lumopt_run_def)


section \<open>Properties of the csv export and import\<close>

text \<open>
  C7.  Export and import.  A sample with the result \<open>[0.5, 0.5]\<close> is exported and the
  file imported with the parameter count 1.  The characters of the names and the
  parameters come back,
  but \<open>load_from_csv\<close> hands the result columns to \<open>add_sample\<close> as one array, which
  \<open>Sample\<close> wraps in a list: the imported result is a sequence of length one, the
  original a sequence of length two.
\<close>

theorem csv_round_trip_result_length:
  "load_from_csv [] (export_to_csv store_two) 1 next_id =
     (Ok (), [\<lparr>parameters = [1], simulation_name = ''sampling'',
               result = [PyArray (1/2) [1/2]], result_name = (1, ''fom'')\<rparr>])
   \<and> result (hd store_two) = [PyFloat (1/2), PyFloat (1/2)]"
  by (simp add: export_to_csv_def export_row_def store_two_def Sample_def add_sample_def
        array_val_def repr_body_def repr_char_def repr_quote_def next_id_def)


text \<open>
  In general, for names of plain characters and results that are floats, the
  characters of the names and the parameters are reconstructed, the result name is a
  new object, and the result becomes the one-element list holding the array of the
  original results.
\<close>

lemma repr_char_plain: "plain_char c \<Longrightarrow> repr_char (CHR 0x27) c = [c]"
  by (auto simp: repr_char_def plain_char_def)

lemma repr_quote_plain: "list_all plain_char s \<Longrightarrow> repr_quote s = CHR 0x27"
  by (auto simp: repr_quote_def list_all_iff plain_char_def)

lemma concat_map_plain: "list_all plain_char s \<Longrightarrow> concat (map (repr_char (CHR 0x27)) s) = s"
  by (induction s) (simp_all add: repr_char_plain)

lemma repr_body_plain: "list_all plain_char s \<Longrightarrow> repr_body s = s"
  by (simp add: repr_body_def repr_quote_plain concat_map_plain)

lemma universal_newlines_plain: "list_all plain_char s \<Longrightarrow> universal_newlines s = s"
  by (induction s rule: universal_newlines.induct) (auto simp: plain_char_def)

lemma float64_Num: "float64 (map Num xs) = Ok xs"
  by (induction xs) simp_all

lemma cells_of_floats: "concat (map (cell_of \<circ> PyFloat) rs) = map Num rs"
  by (induction rs) simp_all

lemma csv_round_trip_floats:
  assumes "list_all plain_char (simulation_name s)" "list_all plain_char (snd (result_name s))"
      and "result s = map PyFloat rs"
  shows "load_from_csv smp (export_to_csv [s]) (length (parameters s)) new_id =
           (Ok (), smp @ [\<lparr>parameters = parameters s, simulation_name = simulation_name s,
                            result = [array_val rs],
                            result_name = (new_id (length smp), snd (result_name s))\<rparr>])"
proof -
  have "result_to_store (array_val rs) = [array_val rs]"
    by (cases rs) (simp_all add: array_val_def)
  then show ?thesis
    using assms
    by (simp add: export_to_csv_def export_row_def cells_of_floats float64_Num
          repr_body_plain universal_newlines_plain add_sample_def Sample_def)
qed


end
